theory Spec2Isabelle
  imports Complex_Main "HOL-Library.Sublist"
begin

text \<open>
  A shallow embedding of \<^verbatim>\<open>src/web/static/js/color-utils.js\<close>: the six functions
  \<^verbatim>\<open>getLuminance\<close>, \<^verbatim>\<open>hexToRgb\<close>, \<^verbatim>\<open>getContrastColor\<close>,
  \<^verbatim>\<open>isValidHex\<close>, \<^verbatim>\<open>createColoredHex\<close> and \<^verbatim>\<open>createColoredHexHTML\<close>,
  each under its own name, and the statements of the specification about them.

  A JavaScript string is a \<open>string\<close>; every character the source looks at is ASCII. A
  number is a natural number where the source computes with channels, a real where it
  divides, and \<open>None\<close> where it would be \<^verbatim>\<open>NaN\<close>. The functions take strings and
  an options object of the documented shape; a second argument that is missing,
  \<^verbatim>\<open>undefined\<close> or \<^verbatim>\<open>null\<close> is treated in a section of its own, with the
  exception it can raise.
\<close>

section \<open>Regular expressions of the source\<close>

text \<open>
  The two patterns of \<^verbatim>\<open>color-utils.js\<close> use literals, character classes,
  sequencing, alternation, the greedy \<^verbatim>\<open>?\<close>, the counted repetition
  \<^verbatim>\<open>{n}\<close> and capturing groups, anchored by \<^verbatim>\<open>^\<close> and
  \<^verbatim>\<open>$\<close>. A pattern is a term of \<open>regex\<close>; a JavaScript string is a \<open>string\<close>.
  Neither pattern has the \<^verbatim>\<open>m\<close> flag, so \<^verbatim>\<open>$\<close> is the end of the input
  and nothing else.
\<close>

datatype regex =
    Lit char
  | Class "char list"
  | Seq regex regex
  | Alt regex regex
  | Opt regex
  | Rep nat regex
  | Group regex

text \<open>
  An outcome of matching a pattern at the head of an input: the texts captured by the
  groups, in the order the groups open, and the input left over. A backtracking matcher
  tries outcomes in a fixed order of priority; \<open>outcomes\<close> lists them in that order.
  (Captures are collected as they are for groups that stand outside any alternation or
  repetition, which is where the source puts the groups it reads.)
\<close>

type_synonym outcome = "string list \<times> string"

definition seq_outcomes ::
  "(string \<Rightarrow> outcome list) \<Rightarrow> (string \<Rightarrow> outcome list) \<Rightarrow> string \<Rightarrow> outcome list" where
  "seq_outcomes m1 m2 s =
     concat (map (\<lambda>(c1, s1). map (\<lambda>(c2, s2). (c1 @ c2, s2)) (m2 s1)) (m1 s))"

primrec rep_outcomes :: "nat \<Rightarrow> (string \<Rightarrow> outcome list) \<Rightarrow> string \<Rightarrow> outcome list" where
  "rep_outcomes 0 m s = [([], s)]"
| "rep_outcomes (Suc n) m s = seq_outcomes m (rep_outcomes n m) s"

primrec outcomes :: "regex \<Rightarrow> string \<Rightarrow> outcome list" where
  "outcomes (Lit c) =
     (\<lambda>s. case s of [] \<Rightarrow> [] | x # xs \<Rightarrow> if x = c then [([], xs)] else [])"
| "outcomes (Class cs) =
     (\<lambda>s. case s of [] \<Rightarrow> [] | x # xs \<Rightarrow> if x \<in> set cs then [([], xs)] else [])"
| "outcomes (Seq p q) = seq_outcomes (outcomes p) (outcomes q)"
| "outcomes (Alt p q) = (\<lambda>s. outcomes p s @ outcomes q s)"
| "outcomes (Opt p) = (\<lambda>s. outcomes p s @ [([], s)])"
| "outcomes (Rep n p) = rep_outcomes n (outcomes p)"
| "outcomes (Group p) =
     (\<lambda>s. map (\<lambda>(cs, rest). (take (length s - length rest) s # cs, rest)) (outcomes p s))"

text \<open>
  \<^verbatim>\<open>/^p$/.exec(s)\<close>: the first outcome, in priority order, that leaves no input. The
  result array holds the whole match (all of \<open>s\<close>, the pattern being anchored at both
  ends) and then the captures; \<open>None\<close> is JavaScript's \<^verbatim>\<open>null\<close>.
  \<^verbatim>\<open>/^p$/.test(s)\<close> says whether \<^verbatim>\<open>exec\<close> found a match.
\<close>

definition regex_exec :: "regex \<Rightarrow> string \<Rightarrow> string list option" where
  "regex_exec p s =
     (case filter (\<lambda>(cs, rest). rest = []) (outcomes p s) of
        [] \<Rightarrow> None
      | (cs, rest) # _ \<Rightarrow> Some (s # cs))"

definition regex_test :: "regex \<Rightarrow> string \<Rightarrow> bool" where
  "regex_test p s = (regex_exec p s \<noteq> None)"

section \<open>hexToRgb\<close>

text \<open>
  \<^verbatim>\<open>/^#?([a-f\d]{2})([a-f\d]{2})([a-f\d]{2})$/i\<close>. The class \<^verbatim>\<open>[a-f\d]\<close> is
  the letters a to f and the ASCII digits; under the \<^verbatim>\<open>i\<close> flag it admits the
  letters A to F as well, and no other character.
\<close>

definition class_af_d_i :: "char list" where
  "class_af_d_i = ''abcdef'' @ ''0123456789'' @ ''ABCDEF''"

definition hexToRgb_pattern :: regex where
  "hexToRgb_pattern =
     Seq (Opt (Lit CHR ''#''))
      (Seq (Group (Rep 2 (Class class_af_d_i)))
        (Seq (Group (Rep 2 (Class class_af_d_i)))
             (Group (Rep 2 (Class class_af_d_i)))))"

text \<open>
  \<^verbatim>\<open>parseInt(s, 16)\<close> on a string that starts with neither white space, a sign nor
  \<^verbatim>\<open>0x\<close> (no capture of the pattern does): the value of the longest prefix of hex
  digits, read in base 16, and \<^verbatim>\<open>NaN\<close> when that prefix is empty. A JavaScript
  number that is a natural number or \<^verbatim>\<open>NaN\<close> is a \<open>nat option\<close>, with \<open>None\<close>
  for \<^verbatim>\<open>NaN\<close>.
\<close>

definition hexDigitValue :: "char \<Rightarrow> nat option" where
  "hexDigitValue c =
     (if c \<in> set ''0123456789'' then Some (of_char c - 48)
      else if c \<in> set ''abcdef'' then Some (of_char c - 87)
      else if c \<in> set ''ABCDEF'' then Some (of_char c - 55)
      else None)"

fun parseHexDigits :: "nat \<Rightarrow> string \<Rightarrow> nat" where
  "parseHexDigits acc [] = acc"
| "parseHexDigits acc (c # cs) =
     (case hexDigitValue c of None \<Rightarrow> acc | Some d \<Rightarrow> parseHexDigits (acc * 16 + d) cs)"

definition parseInt16 :: "string \<Rightarrow> nat option" where
  "parseInt16 s =
     (case s of
        [] \<Rightarrow> None
      | c # _ \<Rightarrow> (case hexDigitValue c of None \<Rightarrow> None | Some _ \<Rightarrow> Some (parseHexDigits 0 s)))"

text \<open>
  \<^verbatim>\<open>result[i]\<close> as \<^verbatim>\<open>parseInt\<close> reads it: an index past the end of the array
  gives \<^verbatim>\<open>undefined\<close>, which \<^verbatim>\<open>parseInt\<close> converts to the string
  \<^verbatim>\<open>"undefined"\<close>.
\<close>

definition capture :: "string list \<Rightarrow> nat \<Rightarrow> string" where
  "capture result i = (if i < length result then result ! i else ''undefined'')"

record rgb =
  r :: "nat option"
  g :: "nat option"
  b :: "nat option"

definition hexToRgb :: "string \<Rightarrow> rgb" where
  "hexToRgb hex =
     (case regex_exec hexToRgb_pattern hex of
        Some result \<Rightarrow>
          \<lparr>r = parseInt16 (capture result 1),
           g = parseInt16 (capture result 2),
           b = parseInt16 (capture result 3)\<rparr>
      | None \<Rightarrow> \<lparr>r = Some 0, g = Some 0, b = Some 0\<rparr>)"

section \<open>isValidHex\<close>

text \<open>
  \<^verbatim>\<open>/^#([A-Fa-f0-9]{6}|[A-Fa-f0-9]{3})$/\<close>: the \<^verbatim>\<open>#\<close> is a plain literal here,
  with no \<^verbatim>\<open>?\<close> after it.
\<close>

definition class_AF_af_09 :: "char list" where
  "class_AF_af_09 = ''ABCDEF'' @ ''abcdef'' @ ''0123456789''"

definition isValidHex_pattern :: regex where
  "isValidHex_pattern =
     Seq (Lit CHR ''#'')
         (Group (Alt (Rep 6 (Class class_AF_af_09)) (Rep 3 (Class class_AF_af_09))))"

definition isValidHex :: "string \<Rightarrow> bool" where
  "isValidHex hex = regex_test isValidHex_pattern hex"

section \<open>getContrastColor and getLuminance\<close>

text \<open>
  The channels are natural numbers below 256 (or \<^verbatim>\<open>NaN\<close>), so the products and
  the sum of the brightness formula are exact integers; the quotient by 1000 and the
  comparison with 128 are taken over the reals. Arithmetic with \<^verbatim>\<open>NaN\<close> gives
  \<^verbatim>\<open>NaN\<close>, and \<^verbatim>\<open>NaN > 128\<close> is false.
\<close>

definition getContrastColor :: "string \<Rightarrow> string" where
  "getContrastColor hex =
     (let rgb = hexToRgb hex in
      case (r rgb, g rgb, b rgb) of
        (Some R, Some G, Some B) \<Rightarrow>
          (let brightness = real (R * 299 + G * 587 + B * 114) / 1000
           in if brightness > 128 then ''#000000'' else ''#ffffff'')
      | _ \<Rightarrow> ''#ffffff'')"

text \<open>
  The arrow function that \<^verbatim>\<open>getLuminance\<close> maps over the channels, and
  \<^verbatim>\<open>getLuminance\<close> itself, over the reals: \<^verbatim>\<open>Math.pow(x, 2.4)\<close> is
  \<open>x powr 2.4\<close> (its base is positive on that branch), and the rounding of IEEE
  doubles is left out. \<open>None\<close> is \<^verbatim>\<open>NaN\<close>.
\<close>

definition linearize :: "real \<Rightarrow> real" where
  "linearize v =
     (let val = v / 255
      in if val \<le> 0.03928 then val / 12.92 else ((val + 0.055) / 1.055) powr 2.4)"

definition getLuminance :: "string \<Rightarrow> real option" where
  "getLuminance hex =
     (let rgb = hexToRgb hex in
      case map (map_option (\<lambda>v. linearize (real v))) [r rgb, g rgb, b rgb] of
        [Some R, Some G, Some B] \<Rightarrow> Some (0.2126 * R + 0.7152 * G + 0.0722 * B)
      | _ \<Rightarrow> None)"

section \<open>The two renderers\<close>

text \<open>
  The options object: a field that is missing or \<^verbatim>\<open>undefined\<close> is \<open>None\<close>, and the
  destructuring pattern gives it its default. A call with no second argument passes
  \<open>noOptions\<close> (the parameter's default \<^verbatim>\<open>{}\<close>).
\<close>

record options =
  mode :: "string option"
  size' :: "string option"
  showBorder :: "bool option"
  className :: "string option"

definition noOptions :: options where
  "noOptions = \<lparr>mode = None, size' = None, showBorder = None, className = None\<rparr>"

definition orDefault :: "'a option \<Rightarrow> 'a \<Rightarrow> 'a" where
  "orDefault v d = (case v of None \<Rightarrow> d | Some x \<Rightarrow> x)"

definition startsWith :: "string \<Rightarrow> string \<Rightarrow> bool" where
  "startsWith s p = (take (length p) s = p)"

text \<open>
  \<^verbatim>\<open>sizeClasses\<close> is an object literal with three properties of its own. A key that
  is none of the three is looked up on \<^verbatim>\<open>Object.prototype\<close>, which belongs to the
  host and is a parameter here: \<open>proto k\<close> is the text the template literal prints for
  the inherited property \<open>k\<close>, and \<open>None\<close> when the host has no such property. A key found
  nowhere gives \<^verbatim>\<open>undefined\<close>, which the template literal prints as the nine
  characters \<^verbatim>\<open>undefined\<close>.
\<close>

definition sizeClasses :: "(string \<times> string) list" where
  "sizeClasses =
     [(''sm'', ''text-xs px-1.5 py-0.5''),
      (''md'', ''text-xs px-2 py-1''),
      (''lg'', ''text-sm px-2.5 py-1.5'')]"

type_synonym prototype = "string \<Rightarrow> string option"

definition sizeClassText :: "prototype \<Rightarrow> string \<Rightarrow> string" where
  "sizeClassText proto k =
     (case map_of sizeClasses k of
        Some v \<Rightarrow> v
      | None \<Rightarrow> (case proto k of Some v \<Rightarrow> v | None \<Rightarrow> ''undefined''))"

text \<open>
  A DOM element, as far as the source writes to it: the tag it was created with, its
  class attribute, the three inline style properties (\<open>None\<close>: never assigned) and its
  text content. The fields hold the strings the source assigns.
\<close>

record element =
  el_tagName :: string
  el_className :: string
  el_backgroundColor :: "string option"
  el_color :: "string option"
  el_border :: "string option"
  el_textContent :: string

definition createElement :: "string \<Rightarrow> element" where
  "createElement tag =
     \<lparr>el_tagName = tag, el_className = [], el_backgroundColor = None, el_color = None,
      el_border = None, el_textContent = []\<rparr>"

definition createColoredHex :: "prototype \<Rightarrow> string \<Rightarrow> options \<Rightarrow> element" where
  "createColoredHex proto hexValue opts =
     (if \<not> isValidHex hexValue then (createElement ''span'')\<lparr>el_textContent := hexValue\<rparr>
      else
        let hex = (if startsWith hexValue ''#'' then hexValue else ''#'' @ hexValue);
            mode = orDefault (mode opts) ''inline'';
            sizeKey = orDefault (size' opts) ''md'';
            showBorder = orDefault (showBorder opts) True;
            className = orDefault (className opts) [];
            textColor = getContrastColor hex;
            element = createElement (if mode = ''block'' then ''div'' else ''span'');
            element = element
              \<lparr>el_className :=
                 ''colored-hex font-mono rounded '' @ sizeClassText proto sizeKey @ '' '' @ className,
               el_backgroundColor := Some hex,
               el_color := Some textColor,
               el_textContent := hex\<rparr>
        in if showBorder
           then element
             \<lparr>el_border :=
                Some (''1px solid '' @
                  (if textColor = ''#000000'' then ''rgba(0,0,0,0.2)'' else ''rgba(255,255,255,0.3)''))\<rparr>
           else element)"

definition createColoredHexHTML :: "prototype \<Rightarrow> string \<Rightarrow> options \<Rightarrow> string" where
  "createColoredHexHTML proto hexValue opts =
     (if \<not> isValidHex hexValue then hexValue
      else
        let hex = (if startsWith hexValue ''#'' then hexValue else ''#'' @ hexValue);
            mode = orDefault (mode opts) ''inline'';
            sizeKey = orDefault (size' opts) ''md'';
            showBorder = orDefault (showBorder opts) True;
            className = orDefault (className opts) [];
            textColor = getContrastColor hex;
            tag = (if mode = ''block'' then ''div'' else ''span'');
            borderStyle =
              (if showBorder
               then ''border: 1px solid '' @
                  (if textColor = ''#000000'' then ''rgba(0,0,0,0.2)'' else ''rgba(255,255,255,0.3)'') @
                  '';''
               else [])
        in ''<'' @ tag @ '' class=\"colored-hex font-mono rounded '' @ sizeClassText proto sizeKey @
           '' '' @ className @ ''\" style=\"background-color: '' @ hex @ ''; color: '' @ textColor @
           ''; '' @ borderStyle @ ''\">'' @ hex @ ''</'' @ tag @ ''>'')"

section \<open>The second argument and the one exception\<close>

text \<open>
  \<^verbatim>\<open>createColoredHex\<close> and \<^verbatim>\<open>createColoredHexHTML\<close> above are the two
  functions on an options object. A caller may also omit the second argument or pass
  \<^verbatim>\<open>undefined\<close> or \<^verbatim>\<open>null\<close>. The parameter default \<^verbatim>\<open>options = {}\<close>
  replaces a missing or \<^verbatim>\<open>undefined\<close> argument by the empty object and leaves
  \<^verbatim>\<open>null\<close> as it is; the validity check comes next and returns before the options
  are read; then the destructuring pattern \<^verbatim>\<open>const {mode = ..., ...} = options\<close>
  throws a \<^verbatim>\<open>TypeError\<close> when \<^verbatim>\<open>options\<close> is \<^verbatim>\<open>null\<close>. That is the only
  operation of the file that can throw on these arguments: matching a pattern,
  \<^verbatim>\<open>parseInt\<close>, the arithmetic, reading \<^verbatim>\<open>result[i]\<close> behind the test that
  \<^verbatim>\<open>result\<close> is not \<^verbatim>\<open>null\<close>, building a string, and creating and writing to
  a \<^verbatim>\<open>span\<close> or a \<^verbatim>\<open>div\<close> all return. A call returns \<open>Inr\<close> of its value or
  \<open>Inl\<close> of the exception it throws.
\<close>

datatype error = TypeError

datatype argument = Undefined | Null | Object options

definition callCreateColoredHex :: "prototype \<Rightarrow> string \<Rightarrow> argument \<Rightarrow> error + element" where
  "callCreateColoredHex proto hexValue arg =
     (if \<not> isValidHex hexValue
      then Inr ((createElement ''span'')\<lparr>el_textContent := hexValue\<rparr>)
      else
        case arg of
          Undefined \<Rightarrow> Inr (createColoredHex proto hexValue noOptions)
        | Null \<Rightarrow> Inl TypeError
        | Object opts \<Rightarrow> Inr (createColoredHex proto hexValue opts))"

definition callCreateColoredHexHTML :: "prototype \<Rightarrow> string \<Rightarrow> argument \<Rightarrow> error + string" where
  "callCreateColoredHexHTML proto hexValue arg =
     (if \<not> isValidHex hexValue
      then Inr hexValue
      else
        case arg of
          Undefined \<Rightarrow> Inr (createColoredHexHTML proto hexValue noOptions)
        | Null \<Rightarrow> Inl TypeError
        | Object opts \<Rightarrow> Inr (createColoredHexHTML proto hexValue opts))"

section \<open>Notions of the specification\<close>

text \<open>
  A hexadecimal digit, and its value: the position of the digit in
  \<^verbatim>\<open>0123456789abcdef\<close>, a letter counting in either case.
\<close>

definition hexDigit :: "char \<Rightarrow> bool" where
  "hexDigit c = (c \<in> set ''0123456789abcdefABCDEF'')"

definition digitVal :: "char \<Rightarrow> nat" where
  "digitVal c =
     min (length (takeWhile (\<lambda>x. x \<noteq> c) ''0123456789abcdef''))
         (length (takeWhile (\<lambda>x. x \<noteq> c) ''0123456789ABCDEF''))"

text \<open>The channel that the two digits at positions \<open>i\<close> and \<open>i + 1\<close> of \<open>d\<close> spell.\<close>

definition channelAt :: "string \<Rightarrow> nat \<Rightarrow> nat" where
  "channelAt d i = 16 * digitVal (d ! i) + digitVal (d ! Suc i)"

text \<open>A string without its leading \<^verbatim>\<open>#\<close>, if it has one.\<close>

definition withoutHash :: "string \<Rightarrow> string" where
  "withoutHash s = (case s of [] \<Rightarrow> [] | c # t \<Rightarrow> if c = CHR ''#'' then t else s)"

text \<open>
  The markup that writes down what an element carries: its tag, its class attribute, the
  inline style declarations that were assigned (in the order background colour, text
  colour, border) and its text content, none of them escaped.
\<close>

definition styleText :: "element \<Rightarrow> string" where
  "styleText e =
     (case el_backgroundColor e of None \<Rightarrow> [] | Some v \<Rightarrow> ''background-color: '' @ v @ ''; '') @
     (case el_color e of None \<Rightarrow> [] | Some v \<Rightarrow> ''color: '' @ v @ ''; '') @
     (case el_border e of None \<Rightarrow> [] | Some v \<Rightarrow> ''border: '' @ v @ '';'')"

definition elementHTML :: "element \<Rightarrow> string" where
  "elementHTML e =
     ''<'' @ el_tagName e @ '' class=\"'' @ el_className e @ ''\" style=\"'' @ styleText e @
     ''\">'' @ el_textContent e @ ''</'' @ el_tagName e @ ''>''"

text \<open>
  A device of the proof that the style attribute holds no \<^verbatim>\<open>border\<close>: every hex
  digit is replaced by \<^verbatim>\<open>0\<close>, which turns the attribute of any valid colour into
  one of two fixed strings.
\<close>

definition maskHex :: "char \<Rightarrow> char" where
  "maskHex c = (if hexDigit c then CHR ''0'' else c)"

section \<open>What the two patterns accept\<close>

lemma rep_class_outcomes:
  "rep_outcomes n (outcomes (Class cs)) s =
     (if n \<le> length s \<and> set (take n s) \<subseteq> set cs then [([], drop n s)] else [])"
proof (induction n arbitrary: s)
  case 0
  show ?case by simp
next
  case (Suc n)
  show ?case
  proof (cases s)
    case Nil
    then show ?thesis by (simp add: seq_outcomes_def)
  next
    case (Cons x xs)
    then show ?thesis using Suc.IH [of xs] by (simp add: seq_outcomes_def)
  qed
qed

lemma group_rep_class_outcomes:
  "outcomes (Group (Rep n (Class cs))) s =
     (if n \<le> length s \<and> set (take n s) \<subseteq> set cs then [([take n s], drop n s)] else [])"
  by (simp only: outcomes.simps(6,7) rep_class_outcomes) simp

lemma alt_rep_class_outcomes:
  "outcomes (Alt (Rep n (Class cs)) (Rep k (Class cs))) s =
     (if n \<le> length s \<and> set (take n s) \<subseteq> set cs then [([], drop n s)] else []) @
     (if k \<le> length s \<and> set (take k s) \<subseteq> set cs then [([], drop k s)] else [])"
  by (simp only: outcomes.simps(4,6) rep_class_outcomes)

lemma seq_group_rep_class:
  "seq_outcomes (outcomes (Group (Rep n (Class cs)))) m s =
     (if n \<le> length s \<and> set (take n s) \<subseteq> set cs
      then map (\<lambda>(c2, s2). (take n s # c2, s2)) (m (drop n s)) else [])"
  by (simp only: group_rep_class_outcomes seq_outcomes_def) auto

lemma take6_split: "take 6 d = take 2 d @ take 2 (drop 2 d) @ take 2 (drop 4 d)"
proof -
  have "take (2 + (2 + 2)) d = take 2 d @ take (2 + 2) (drop 2 d)"
    by (rule take_add)
  also have "take (2 + 2) (drop 2 d) = take 2 (drop 2 d) @ take 2 (drop 2 (drop 2 d))"
    by (rule take_add)
  finally show ?thesis by simp
qed

lemma three_pairs_outcomes:
  "outcomes (Seq (Group (Rep 2 (Class cs)))
       (Seq (Group (Rep 2 (Class cs))) (Group (Rep 2 (Class cs))))) d =
     (if 6 \<le> length d \<and> set (take 6 d) \<subseteq> set cs
      then [([take 2 d, take 2 (drop 2 d), take 2 (drop 4 d)], drop 6 d)] else [])"
  apply (simp only: outcomes.simps(3) seq_group_rep_class)
  apply (simp only: group_rep_class_outcomes take6_split)
  apply auto
  done

lemma opt_lit_seq_outcomes:
  "outcomes (Seq (Opt (Lit c)) q) s =
     (case s of
        [] \<Rightarrow> outcomes q []
      | x # t \<Rightarrow> (if x = c then outcomes q t else []) @ outcomes q s)"
  by (cases s) (simp_all add: seq_outcomes_def)

lemma class_AF_af_09_iff: "c \<in> set class_AF_af_09 \<longleftrightarrow> hexDigit c"
  by (auto simp add: class_AF_af_09_def hexDigit_def)

lemma class_af_d_i_iff: "c \<in> set class_af_d_i \<longleftrightarrow> hexDigit c"
  by (auto simp add: class_af_d_i_def hexDigit_def)

lemma subset_class_AF_af_09: "set d \<subseteq> set class_AF_af_09 \<longleftrightarrow> list_all hexDigit d"
  by (auto simp add: list_all_iff class_AF_af_09_iff)

lemma subset_class_af_d_i: "set d \<subseteq> set class_af_d_i \<longleftrightarrow> list_all hexDigit d"
  by (auto simp add: list_all_iff class_af_d_i_iff)

lemma hash_not_hexDigit: "\<not> hexDigit CHR ''#''"
  by (simp add: hexDigit_def)

text \<open>
  \<^verbatim>\<open>isValidHex\<close> accepts exactly a \<^verbatim>\<open>#\<close> followed by six or by three hex digits.
\<close>

lemma isValidHex_iff:
  "isValidHex s \<longleftrightarrow>
     (\<exists>d. s = CHR ''#'' # d \<and> (length d = 6 \<or> length d = 3) \<and> list_all hexDigit d)"
proof (cases s)
  case Nil
  then show ?thesis
    by (simp add: isValidHex_def regex_test_def regex_exec_def isValidHex_pattern_def
        seq_outcomes_def)
next
  case (Cons x d)
  have "outcomes isValidHex_pattern (x # d) =
     (if x = CHR ''#'' then
        map (\<lambda>(cs, rest). (take (length d - length rest) d # cs, rest))
         ((if 6 \<le> length d \<and> list_all hexDigit (take 6 d) then [([], drop 6 d)] else []) @
          (if 3 \<le> length d \<and> list_all hexDigit (take 3 d) then [([], drop 3 d)] else []))
      else [])"
    unfolding isValidHex_pattern_def
    by (simp only: outcomes.simps(1,3,7) alt_rep_class_outcomes seq_outcomes_def
        subset_class_AF_af_09) simp
  then show ?thesis using Cons
    by (auto simp add: isValidHex_def regex_test_def regex_exec_def split: if_splits)
qed

text \<open>
  The pattern of \<^verbatim>\<open>hexToRgb\<close> accepts exactly six hex digits after an optional
  \<^verbatim>\<open>#\<close>, and captures the three pairs of digits.
\<close>

lemma hexToRgb_pattern_outcomes:
  "outcomes hexToRgb_pattern s =
     (case s of
        [] \<Rightarrow> []
      | c # t \<Rightarrow>
          if c = CHR ''#''
          then (if 6 \<le> length t \<and> list_all hexDigit (take 6 t)
                then [([take 2 t, take 2 (drop 2 t), take 2 (drop 4 t)], drop 6 t)] else [])
          else (if 6 \<le> length s \<and> list_all hexDigit (take 6 s)
                then [([take 2 s, take 2 (drop 2 s), take 2 (drop 4 s)], drop 6 s)] else []))"
  unfolding hexToRgb_pattern_def
  by (simp only: opt_lit_seq_outcomes three_pairs_outcomes subset_class_af_d_i)
     (auto simp add: hash_not_hexDigit split: list.splits)

lemma hexToRgb_exec:
  "regex_exec hexToRgb_pattern s =
     (if length (withoutHash s) = 6 \<and> list_all hexDigit (withoutHash s)
      then Some [s, take 2 (withoutHash s), take 2 (drop 2 (withoutHash s)),
                 drop 4 (withoutHash s)]
      else None)"
  by (cases s) (auto simp add: regex_exec_def hexToRgb_pattern_outcomes withoutHash_def)

section \<open>What hexToRgb returns\<close>

lemma digits_table:
  "list_all (\<lambda>c. hexDigitValue c = Some (digitVal c) \<and> digitVal c \<le> 15)
     ''0123456789abcdefABCDEF''"
  by code_simp

lemma hexDigitValue_digitVal: "hexDigit c \<Longrightarrow> hexDigitValue c = Some (digitVal c)"
  using digits_table by (simp only: hexDigit_def list_all_iff)

lemma digitVal_le: "hexDigit c \<Longrightarrow> digitVal c \<le> 15"
  using digits_table by (simp only: hexDigit_def list_all_iff)

lemma parseInt16_pair:
  "hexDigit x \<Longrightarrow> hexDigit y \<Longrightarrow> parseInt16 [x, y] = Some (16 * digitVal x + digitVal y)"
  by (simp add: parseInt16_def hexDigitValue_digitVal)

lemma take2_drop: "i + 2 \<le> length d \<Longrightarrow> take 2 (drop i d) = [d ! i, d ! Suc i]"
  by (simp add: take_Suc_conv_app_nth numeral_2_eq_2)

lemma channelAt_le: "list_all hexDigit d \<Longrightarrow> Suc i < length d \<Longrightarrow> channelAt d i \<le> 255"
  using digitVal_le [of "d ! i"] digitVal_le [of "d ! Suc i"]
  by (simp add: channelAt_def list_all_length)

lemma hexToRgb_other:
  "\<not> (length (withoutHash hex) = 6 \<and> list_all hexDigit (withoutHash hex)) \<Longrightarrow>
   hexToRgb hex = \<lparr>r = Some 0, g = Some 0, b = Some 0\<rparr>"
  by (auto simp add: hexToRgb_def hexToRgb_exec)

lemma hexToRgb_six:
  assumes "length d = 6" "list_all hexDigit d" "hex = d \<or> hex = CHR ''#'' # d"
  shows "hexToRgb hex =
    \<lparr>r = Some (channelAt d 0), g = Some (channelAt d 2), b = Some (channelAt d 4)\<rparr>"
proof -
  have w: "withoutHash hex = d"
    using assms hash_not_hexDigit by (cases d) (auto simp add: withoutHash_def)
  have t0: "take 2 d = [d ! 0, d ! Suc 0]" using take2_drop [of 0 d] assms(1) by simp
  have t2: "take 2 (drop 2 d) = [d ! 2, d ! Suc 2]" using take2_drop [of 2 d] assms(1) by simp
  have t4: "drop 4 d = [d ! 4, d ! Suc 4]" using take2_drop [of 4 d] assms(1) by simp
  have h: "\<And>i. i < 6 \<Longrightarrow> hexDigit (d ! i)"
    using assms(1,2) by (simp add: list_all_length)
  show ?thesis
    using assms(1,2) h
    by (simp add: hexToRgb_def hexToRgb_exec w capture_def t0 t2 t4 parseInt16_pair
        channelAt_def)
qed

lemma withoutHash_cases: "hex = withoutHash hex \<or> hex = CHR ''#'' # withoutHash hex"
  by (cases hex) (auto simp add: withoutHash_def)

lemma hexToRgb_channels:
  "\<exists>R G B. hexToRgb hex = \<lparr>r = Some R, g = Some G, b = Some B\<rparr> \<and>
      R \<le> 255 \<and> G \<le> 255 \<and> B \<le> 255"
proof (cases "length (withoutHash hex) = 6 \<and> list_all hexDigit (withoutHash hex)")
  case True
  then have "hexToRgb hex =
      \<lparr>r = Some (channelAt (withoutHash hex) 0), g = Some (channelAt (withoutHash hex) 2),
       b = Some (channelAt (withoutHash hex) 4)\<rparr>"
    using hexToRgb_six [of "withoutHash hex" hex] withoutHash_cases [of hex] by simp
  moreover have "channelAt (withoutHash hex) 0 \<le> 255" "channelAt (withoutHash hex) 2 \<le> 255"
      "channelAt (withoutHash hex) 4 \<le> 255"
    using True by (simp_all add: channelAt_le)
  ultimately show ?thesis by blast
next
  case False
  then show ?thesis using hexToRgb_other [of hex] by simp
qed

section \<open>What getContrastColor returns\<close>

lemma getContrastColor_channels:
  "hexToRgb hex = \<lparr>r = Some R, g = Some G, b = Some B\<rparr> \<Longrightarrow>
   getContrastColor hex =
     (if real (R * 299 + G * 587 + B * 114) / 1000 > 128 then ''#000000'' else ''#ffffff'')"
  by (simp add: getContrastColor_def)

lemma getContrastColor_range:
  "getContrastColor hex = ''#000000'' \<or> getContrastColor hex = ''#ffffff''"
  using hexToRgb_channels [of hex] getContrastColor_channels [of hex] by (auto split: if_splits)

section \<open>The renderers, unfolded\<close>

lemma isValidHex_startsWith: "isValidHex h \<Longrightarrow> startsWith h ''#''"
  by (auto simp add: isValidHex_iff startsWith_def)

lemma createColoredHex_valid:
  "isValidHex h \<Longrightarrow>
   createColoredHex proto h opts =
     \<lparr>el_tagName = (if orDefault (mode opts) ''inline'' = ''block'' then ''div'' else ''span''),
      el_className = ''colored-hex font-mono rounded '' @
         sizeClassText proto (orDefault (size' opts) ''md'') @ '' '' @
         orDefault (className opts) [],
      el_backgroundColor = Some h,
      el_color = Some (getContrastColor h),
      el_border =
        (if orDefault (showBorder opts) True
         then Some (''1px solid '' @
                (if getContrastColor h = ''#000000'' then ''rgba(0,0,0,0.2)''
                 else ''rgba(255,255,255,0.3)''))
         else None),
      el_textContent = h\<rparr>"
  by (simp add: createColoredHex_def isValidHex_startsWith createElement_def Let_def)

lemma createColoredHexHTML_valid:
  "isValidHex h \<Longrightarrow>
   createColoredHexHTML proto h opts =
     ''<'' @ (if orDefault (mode opts) ''inline'' = ''block'' then ''div'' else ''span'') @
     '' class=\"colored-hex font-mono rounded '' @
     sizeClassText proto (orDefault (size' opts) ''md'') @ '' '' @
     orDefault (className opts) [] @
     ''\" style=\"background-color: '' @ h @ ''; color: '' @ getContrastColor h @ ''; '' @
     (if orDefault (showBorder opts) True
      then ''border: 1px solid '' @
           (if getContrastColor h = ''#000000'' then ''rgba(0,0,0,0.2)''
            else ''rgba(255,255,255,0.3)'') @ '';''
      else []) @
     ''\">'' @ h @ ''</'' @
     (if orDefault (mode opts) ''inline'' = ''block'' then ''div'' else ''span'') @ ''>''"
  by (simp add: createColoredHexHTML_def isValidHex_startsWith Let_def)

lemma createColoredHex_invalid:
  "\<not> isValidHex h \<Longrightarrow>
   createColoredHex proto h opts =
     \<lparr>el_tagName = ''span'', el_className = [], el_backgroundColor = None, el_color = None,
      el_border = None, el_textContent = h\<rparr>"
  by (simp add: createColoredHex_def createElement_def)

lemma createColoredHexHTML_invalid:
  "\<not> isValidHex h \<Longrightarrow> createColoredHexHTML proto h opts = h"
  by (simp add: createColoredHexHTML_def)

lemma html_is_elementHTML:
  "isValidHex h \<Longrightarrow>
   createColoredHexHTML proto h opts = elementHTML (createColoredHex proto h opts)"
  by (simp add: createColoredHexHTML_valid createColoredHex_valid elementHTML_def styleText_def)



section \<open>Luminance over the reals\<close>

lemma linearize_range:
  assumes "v \<le> 255"
  shows "0 \<le> linearize (real v) \<and> linearize (real v) \<le> 1"
proof (cases "real v / 255 \<le> 0.03928")
  case True
  then have "linearize (real v) = real v / 255 / 12.92"
    by (simp add: linearize_def)
  moreover have "0 \<le> real v / 255 / 12.92" by simp
  moreover have "real v / 255 / 12.92 \<le> 1" using assms by simp
  ultimately show ?thesis by simp
next
  case False
  then have e: "linearize (real v) = ((real v / 255 + 0.055) / 1.055) powr 2.4"
    by (simp add: linearize_def)
  have "0 \<le> (real v / 255 + 0.055) / 1.055" by simp
  moreover have "(real v / 255 + 0.055) / 1.055 \<le> 1" using assms by simp
  ultimately have "((real v / 255 + 0.055) / 1.055) powr 2.4 \<le> 1"
    by (intro powr_le1) simp_all
  then show ?thesis using e by simp
qed

lemma linearize_0: "linearize 0 = 0"
  by (simp add: linearize_def)

lemma linearize_255: "linearize 255 = 1"
  by (simp add: linearize_def)

lemma getLuminance_channels:
  "hexToRgb hex = \<lparr>r = Some R, g = Some G, b = Some B\<rparr> \<Longrightarrow>
   getLuminance hex =
     Some (0.2126 * linearize (real R) + 0.7152 * linearize (real G) + 0.0722 * linearize (real B))"
  by (simp add: getLuminance_def)

section \<open>The style attribute without a border\<close>

lemma map_maskHex_digits:
  "list_all hexDigit d \<Longrightarrow> map maskHex d = replicate (length d) CHR ''0''"
  by (induction d) (simp_all add: maskHex_def)

lemma masked_style_cases:
  assumes "isValidHex h"
  shows "map maskHex (''background-color: '' @ h @ ''; color: '' @ getContrastColor h @ ''; '') =
           ''000kgroun0-0olor: #000; 0olor: #000000; '' \<or>
         map maskHex (''background-color: '' @ h @ ''; color: '' @ getContrastColor h @ ''; '') =
           ''000kgroun0-0olor: #000000; 0olor: #000000; ''"
proof -
  obtain d where h: "h = CHR ''#'' # d" and len: "length d = 6 \<or> length d = 3"
      and dig: "list_all hexDigit d"
    using assms by (auto simp add: isValidHex_iff)
  have "replicate (length d) CHR ''0'' = ''000000'' \<or> replicate (length d) CHR ''0'' = ''000''"
    using len by (auto simp add: numeral_eq_Suc)
  then have m: "map maskHex h = ''#000000'' \<or> map maskHex h = ''#000''"
    using dig by (simp add: h map_maskHex_digits maskHex_def hexDigit_def)
  have t: "map maskHex (getContrastColor h) = ''#000000''"
    using getContrastColor_range [of h] by (auto simp add: maskHex_def hexDigit_def)
  have p1: "map maskHex ''background-color: '' = ''000kgroun0-0olor: ''"
    by (simp add: maskHex_def hexDigit_def)
  have p2: "map maskHex ''; color: '' = ''; 0olor: ''"
    by (simp add: maskHex_def hexDigit_def)
  have p3: "map maskHex ''; '' = ''; ''"
    by (simp add: maskHex_def hexDigit_def)
  from m show ?thesis
  proof
    assume "map maskHex h = ''#000000''"
    then show ?thesis by (simp only: map_append t p1 p2 p3) simp
  next
    assume "map maskHex h = ''#000''"
    then show ?thesis by (simp only: map_append t p1 p2 p3) simp
  qed
qed

lemma style_has_no_border:
  assumes "isValidHex h"
  shows "\<not> sublist ''border''
    (''background-color: '' @ h @ ''; color: '' @ getContrastColor h @ ''; '')"
proof
  define S where "S = ''background-color: '' @ h @ ''; color: '' @ getContrastColor h @ ''; ''"
  assume "sublist ''border''
    (''background-color: '' @ h @ ''; color: '' @ getContrastColor h @ ''; '')"
  then have "sublist ''border'' S" by (simp only: S_def)
  then have "sublist (map maskHex ''border'') (map maskHex S)"
    by (rule map_mono_sublist)
  moreover have "map maskHex ''border'' = ''0or00r''"
    by (simp add: maskHex_def hexDigit_def)
  ultimately have s: "sublist ''0or00r'' (map maskHex S)" by (simp only:)
  have n3: "\<not> sublist ''0or00r'' ''000kgroun0-0olor: #000; 0olor: #000000; ''"
    by (simp add: sublist_Cons_right prefix_Cons)
  have n6: "\<not> sublist ''0or00r'' ''000kgroun0-0olor: #000000; 0olor: #000000; ''"
    by (simp add: sublist_Cons_right prefix_Cons)
  from masked_style_cases [OF assms]
  have "map maskHex S = ''000kgroun0-0olor: #000; 0olor: #000000; '' \<or>
        map maskHex S = ''000kgroun0-0olor: #000000; 0olor: #000000; ''"
    by (simp only: S_def)
  then show False
  proof
    assume "map maskHex S = ''000kgroun0-0olor: #000; 0olor: #000000; ''"
    with s n3 show False by (simp only:)
  next
    assume "map maskHex S = ''000kgroun0-0olor: #000000; 0olor: #000000; ''"
    with s n6 show False by (simp only:)
  qed
qed

section \<open>Two colours worked out\<close>

lemma hexToRgb_FF5733: "hexToRgb ''#FF5733'' = \<lparr>r = Some 255, g = Some 87, b = Some 51\<rparr>"
  using hexToRgb_six [of "''FF5733''" "''#FF5733''"]
  by (simp add: hexDigit_def channelAt_def digitVal_def)

lemma getContrastColor_FF5733: "getContrastColor ''#FF5733'' = ''#000000''"
  by (simp add: getContrastColor_channels [OF hexToRgb_FF5733])

lemma hexToRgb_1a2b3c: "hexToRgb ''#1a2b3c'' = \<lparr>r = Some 26, g = Some 43, b = Some 60\<rparr>"
  using hexToRgb_six [of "''1a2b3c''" "''#1a2b3c''"]
  by (simp add: hexDigit_def channelAt_def digitVal_def)

lemma getContrastColor_1a2b3c: "getContrastColor ''#1a2b3c'' = ''#ffffff''"
  by (simp add: getContrastColor_channels [OF hexToRgb_1a2b3c])

lemma isValidHex_FF5733: "isValidHex ''#FF5733''"
  by (simp add: isValidHex_iff hexDigit_def)

lemma isValidHex_1a2b3c: "isValidHex ''#1a2b3c''"
  by (simp add: isValidHex_iff hexDigit_def)

lemma sizeClassText_unknown:
  "k \<noteq> ''sm'' \<Longrightarrow> k \<noteq> ''md'' \<Longrightarrow> k \<noteq> ''lg'' \<Longrightarrow> proto k = None \<Longrightarrow>
   sizeClassText proto k = ''undefined''"
  by (simp add: sizeClassText_def sizeClasses_def)

lemma not_valid_not_a_color: "\<not> isValidHex ''not-a-color''"
  by (simp add: isValidHex_iff)

section \<open>The claims\<close>

text \<open>
  Claim C1. \<^verbatim>\<open>isValidHex\<close> is to accept six or three hex digits with or without a
  leading \<^verbatim>\<open>#\<close>, for instance \<^verbatim>\<open>FF5733\<close> as well as \<^verbatim>\<open>#FF5733\<close>. The
  pattern of the source has a mandatory \<^verbatim>\<open>#\<close>: the function accepts exactly
  the strings made of \<^verbatim>\<open>#\<close> and six or three hex digits, so it rejects
  \<^verbatim>\<open>FF5733\<close> and \<^verbatim>\<open>F53\<close>, and accepts them once the \<^verbatim>\<open>#\<close> is there.
\<close>

theorem isValidHex_needs_hash:
  "(isValidHex s \<longleftrightarrow>
      (\<exists>d. s = CHR ''#'' # d \<and> (length d = 6 \<or> length d = 3) \<and> list_all hexDigit d)) \<and>
   isValidHex ''FF5733'' = False \<and> isValidHex ''F53'' = False \<and>
   isValidHex ''#FF5733'' = True \<and> isValidHex ''#F53'' = True"
proof -
  have "isValidHex ''FF5733'' = False" "isValidHex ''F53'' = False"
    "isValidHex ''#FF5733'' = True" "isValidHex ''#F53'' = True"
    by (simp_all add: isValidHex_iff hexDigit_def)
  then show ?thesis using isValidHex_iff [of s] by simp
qed

text \<open>
  Claim C2. \<^verbatim>\<open>createColoredHex("FF5733")\<close> is to be a styled node with background
  \<^verbatim>\<open>#FF5733\<close>, text \<^verbatim>\<open>#FF5733\<close> and text colour \<^verbatim>\<open>#000000\<close>. In the source
  the validator rejects the input before the line that would add the \<^verbatim>\<open>#\<close>, so
  the result is the plain \<^verbatim>\<open>span\<close> that carries \<^verbatim>\<open>FF5733\<close> and no style, for
  every host and every options object. With the \<^verbatim>\<open>#\<close> written out the node is the
  one the claim describes.
\<close>

theorem createColoredHex_FF5733:
  "createColoredHex proto ''FF5733'' opts =
     \<lparr>el_tagName = ''span'', el_className = [], el_backgroundColor = None, el_color = None,
      el_border = None, el_textContent = ''FF5733''\<rparr> \<and>
   createColoredHex proto ''#FF5733'' noOptions =
     \<lparr>el_tagName = ''span'', el_className = ''colored-hex font-mono rounded text-xs px-2 py-1 '',
      el_backgroundColor = Some ''#FF5733'', el_color = Some ''#000000'',
      el_border = Some ''1px solid rgba(0,0,0,0.2)'', el_textContent = ''#FF5733''\<rparr>"
proof -
  have bad: "\<not> isValidHex ''FF5733''" and good: "isValidHex ''#FF5733''"
    by (simp_all add: isValidHex_iff hexDigit_def)
  have "hexToRgb ''#FF5733'' = \<lparr>r = Some 255, g = Some 87, b = Some 51\<rparr>"
    using hexToRgb_six [of "''FF5733''" "''#FF5733''"]
    by (simp add: hexDigit_def channelAt_def digitVal_def)
  then have tc: "getContrastColor ''#FF5733'' = ''#000000''"
    by (simp add: getContrastColor_channels)
  show ?thesis
    using createColoredHex_invalid [OF bad, of proto opts]
      createColoredHex_valid [OF good, of proto noOptions] tc
    by (simp add: noOptions_def orDefault_def sizeClassText_def sizeClasses_def)
qed

text \<open>
  Claim C3, as amended. For a valid colour and a \<^verbatim>\<open>size\<close> that is none of
  \<^verbatim>\<open>sm\<close>, \<^verbatim>\<open>md\<close>, \<^verbatim>\<open>lg\<close> and names no property that the host's
  \<^verbatim>\<open>Object.prototype\<close> provides, both renderers write the word
  \<^verbatim>\<open>undefined\<close> where the size class would stand: the class string is
  \<^verbatim>\<open>colored-hex font-mono rounded undefined\<close>, a space, and \<^verbatim>\<open>className\<close>.
  Nothing is validated and no default is put in its place.
\<close>

theorem unknown_size_prints_undefined:
  "isValidHex h \<Longrightarrow> size' opts = Some k \<Longrightarrow>
   k \<noteq> ''sm'' \<Longrightarrow> k \<noteq> ''md'' \<Longrightarrow> k \<noteq> ''lg'' \<Longrightarrow> proto k = None \<Longrightarrow>
   el_className (createColoredHex proto h opts) =
     ''colored-hex font-mono rounded undefined '' @ orDefault (className opts) [] \<and>
   (\<exists>post. createColoredHexHTML proto h opts =
      ''<'' @ el_tagName (createColoredHex proto h opts) @
      '' class=\"colored-hex font-mono rounded undefined '' @ orDefault (className opts) [] @
      ''\" style=\"'' @ post)"
proof
  assume v: "isValidHex h"
    and k: "size' opts = Some k" "k \<noteq> ''sm''" "k \<noteq> ''md''" "k \<noteq> ''lg''" "proto k = None"
  have u: "sizeClassText proto (orDefault (size' opts) ''md'') = ''undefined''"
    using k by (simp add: orDefault_def sizeClassText_unknown)
  show "el_className (createColoredHex proto h opts) =
     ''colored-hex font-mono rounded undefined '' @ orDefault (className opts) []"
    by (simp add: createColoredHex_valid [OF v] u)
  have eq: "createColoredHexHTML proto h opts =
      ''<'' @ el_tagName (createColoredHex proto h opts) @
      '' class=\"colored-hex font-mono rounded undefined '' @ orDefault (className opts) [] @
      ''\" style=\"'' @
      (''background-color: '' @ h @ ''; color: '' @ getContrastColor h @ ''; '' @
       (if orDefault (showBorder opts) True
        then ''border: 1px solid '' @
           (if getContrastColor h = ''#000000'' then ''rgba(0,0,0,0.2)''
            else ''rgba(255,255,255,0.3)'') @ '';''
        else []) @
       ''\">'' @ h @ ''</'' @ el_tagName (createColoredHex proto h opts) @ ''>'')"
    by (simp only: createColoredHexHTML_valid [OF v] createColoredHex_valid [OF v] u
        element.simps append_assoc append_Cons append_Nil)
  show "\<exists>post. createColoredHexHTML proto h opts =
      ''<'' @ el_tagName (createColoredHex proto h opts) @
      '' class=\"colored-hex font-mono rounded undefined '' @ orDefault (className opts) [] @
      ''\" style=\"'' @ post"
    by (rule exI, rule eq)
qed

theorem unknown_size_prints_undefined_witness:
  "isValidHex ''#FF5733'' \<and>
   el_className (createColoredHex
       (\<lambda>k. if k = ''toString'' then Some ''function toString() { [native code] }'' else None)
       ''#FF5733'' (noOptions\<lparr>size' := Some ''huge'', className := Some ''swatch''\<rparr>)) =
     ''colored-hex font-mono rounded undefined swatch''"
proof -
  have v: "isValidHex ''#FF5733''" by (rule isValidHex_FF5733)
  show ?thesis
    using v unknown_size_prints_undefined [OF v,
        of "noOptions\<lparr>size' := Some ''huge'', className := Some ''swatch''\<rparr>" "''huge''"
           "\<lambda>k. if k = ''toString'' then Some ''function toString() { [native code] }'' else None"]
    by (simp add: noOptions_def orDefault_def)
qed

text \<open>
  Claim C3, as stated, says that the place of the size class is empty or missing. For the
  size \<^verbatim>\<open>xl\<close> it holds the word \<^verbatim>\<open>undefined\<close>, in the element and in the
  markup; and for a size that names an inherited property, such as
  \<^verbatim>\<open>toString\<close>, it holds the text of that property.
\<close>

theorem unknown_size_slot_not_empty:
  "el_className (createColoredHex (\<lambda>k. None) ''#FF5733'' (noOptions\<lparr>size' := Some ''xl''\<rparr>)) =
     ''colored-hex font-mono rounded undefined '' \<and>
   el_className (createColoredHex (\<lambda>k. None) ''#FF5733'' (noOptions\<lparr>size' := Some ''xl''\<rparr>)) \<noteq>
     ''colored-hex font-mono rounded  '' \<and>
   el_className (createColoredHex (\<lambda>k. None) ''#FF5733'' (noOptions\<lparr>size' := Some ''xl''\<rparr>)) \<noteq>
     ''colored-hex font-mono rounded '' \<and>
   createColoredHexHTML (\<lambda>k. None) ''#FF5733'' (noOptions\<lparr>size' := Some ''xl''\<rparr>) =
     ''<span class=\"colored-hex font-mono rounded undefined \" style=\"background-color: #FF5733; color: #000000; border: 1px solid rgba(0,0,0,0.2);\">#FF5733</span>'' \<and>
   el_className (createColoredHex
       (\<lambda>k. if k = ''toString'' then Some ''function toString() { [native code] }'' else None)
       ''#FF5733'' (noOptions\<lparr>size' := Some ''toString''\<rparr>)) =
     ''colored-hex font-mono rounded function toString() { [native code] } ''"
  by (simp add: createColoredHex_valid [OF isValidHex_FF5733]
      createColoredHexHTML_valid [OF isValidHex_FF5733] getContrastColor_FF5733
      noOptions_def orDefault_def sizeClassText_def sizeClasses_def)

text \<open>
  Claim C4, as amended. For an input that \<^verbatim>\<open>isValidHex\<close> accepts, the markup that
  \<^verbatim>\<open>createColoredHexHTML\<close> returns is the element that \<^verbatim>\<open>createColoredHex\<close>
  builds, written out by \<open>elementHTML\<close>: the same tag (\<^verbatim>\<open>div\<close> for mode
  \<^verbatim>\<open>block\<close>, \<^verbatim>\<open>span\<close> otherwise), the same class string, the same
  background colour, text colour and border, and the same text. For an input that
  \<^verbatim>\<open>isValidHex\<close> rejects, \<^verbatim>\<open>createColoredHex\<close> returns a bare
  \<^verbatim>\<open>span\<close> whatever the mode, and \<^verbatim>\<open>createColoredHexHTML\<close> returns the input
  string with no element around it.
\<close>

theorem renderers_agree_on_valid_input:
  "(isValidHex h \<longrightarrow>
      createColoredHexHTML proto h opts = elementHTML (createColoredHex proto h opts) \<and>
      el_tagName (createColoredHex proto h opts) =
        (if mode opts = Some ''block'' then ''div'' else ''span'') \<and>
      el_className (createColoredHex proto h opts) =
        ''colored-hex font-mono rounded '' @ sizeClassText proto (orDefault (size' opts) ''md'') @
        '' '' @ orDefault (className opts) [] \<and>
      el_backgroundColor (createColoredHex proto h opts) = Some h \<and>
      el_color (createColoredHex proto h opts) = Some (getContrastColor h) \<and>
      el_border (createColoredHex proto h opts) =
        (if showBorder opts = Some False then None
         else Some (''1px solid '' @
           (if getContrastColor h = ''#000000'' then ''rgba(0,0,0,0.2)''
            else ''rgba(255,255,255,0.3)''))) \<and>
      el_textContent (createColoredHex proto h opts) = h) \<and>
   (\<not> isValidHex h \<longrightarrow>
      createColoredHex proto h opts =
        \<lparr>el_tagName = ''span'', el_className = [], el_backgroundColor = None, el_color = None,
         el_border = None, el_textContent = h\<rparr> \<and>
      createColoredHexHTML proto h opts = h)"
proof (intro conjI impI)
  assume v: "isValidHex h"
  show "createColoredHexHTML proto h opts = elementHTML (createColoredHex proto h opts)"
    using v by (rule html_is_elementHTML)
  show "el_tagName (createColoredHex proto h opts) =
     (if mode opts = Some ''block'' then ''div'' else ''span'')"
    by (cases "mode opts") (simp_all add: createColoredHex_valid [OF v] orDefault_def)
  show "el_className (createColoredHex proto h opts) =
     ''colored-hex font-mono rounded '' @ sizeClassText proto (orDefault (size' opts) ''md'') @
     '' '' @ orDefault (className opts) []"
    by (simp add: createColoredHex_valid [OF v])
  show "el_backgroundColor (createColoredHex proto h opts) = Some h"
    by (simp add: createColoredHex_valid [OF v])
  show "el_color (createColoredHex proto h opts) = Some (getContrastColor h)"
    by (simp add: createColoredHex_valid [OF v])
  show "el_border (createColoredHex proto h opts) =
     (if showBorder opts = Some False then None
      else Some (''1px solid '' @
        (if getContrastColor h = ''#000000'' then ''rgba(0,0,0,0.2)''
         else ''rgba(255,255,255,0.3)'')))"
    by (cases "showBorder opts") (simp_all add: createColoredHex_valid [OF v] orDefault_def)
  show "el_textContent (createColoredHex proto h opts) = h"
    by (simp add: createColoredHex_valid [OF v])
next
  assume n: "\<not> isValidHex h"
  show "createColoredHex proto h opts =
        \<lparr>el_tagName = ''span'', el_className = [], el_backgroundColor = None, el_color = None,
         el_border = None, el_textContent = h\<rparr>"
    using n by (rule createColoredHex_invalid)
  show "createColoredHexHTML proto h opts = h"
    using n by (rule createColoredHexHTML_invalid)
qed

theorem renderers_agree_on_valid_input_witness:
  "isValidHex ''#1a2b3c'' \<and>
   createColoredHexHTML (\<lambda>k. None) ''#1a2b3c'' (noOptions\<lparr>mode := Some ''block''\<rparr>) =
     elementHTML (createColoredHex (\<lambda>k. None) ''#1a2b3c'' (noOptions\<lparr>mode := Some ''block''\<rparr>)) \<and>
   el_tagName (createColoredHex (\<lambda>k. None) ''#1a2b3c'' (noOptions\<lparr>mode := Some ''block''\<rparr>)) =
     ''div'' \<and>
   el_color (createColoredHex (\<lambda>k. None) ''#1a2b3c'' (noOptions\<lparr>mode := Some ''block''\<rparr>)) =
     Some ''#ffffff'' \<and>
   \<not> isValidHex ''not-a-color'' \<and>
   createColoredHexHTML (\<lambda>k. None) ''not-a-color'' noOptions = ''not-a-color''"
proof -
  have v: "isValidHex ''#1a2b3c''" by (rule isValidHex_1a2b3c)
  have n: "\<not> isValidHex ''not-a-color''" by (rule not_valid_not_a_color)
  show ?thesis
    using v n
      renderers_agree_on_valid_input [of "''#1a2b3c''" "\<lambda>k. None" "noOptions\<lparr>mode := Some ''block''\<rparr>"]
      renderers_agree_on_valid_input [of "''not-a-color''" "\<lambda>k. None" noOptions]
    by (simp add: noOptions_def getContrastColor_1a2b3c)
qed

text \<open>
  Claim C4, as stated, speaks of every input string. For \<^verbatim>\<open>not-a-color\<close> with mode
  \<^verbatim>\<open>block\<close> the element is a \<^verbatim>\<open>span\<close>, not a \<^verbatim>\<open>div\<close>, and the markup
  renderer returns the eleven characters of the input, which is not the markup of that
  element.
\<close>

theorem renderers_differ_on_invalid_input:
  "el_tagName (createColoredHex (\<lambda>k. None) ''not-a-color'' (noOptions\<lparr>mode := Some ''block''\<rparr>)) =
     ''span'' \<and>
   createColoredHexHTML (\<lambda>k. None) ''not-a-color'' (noOptions\<lparr>mode := Some ''block''\<rparr>) =
     ''not-a-color'' \<and>
   createColoredHexHTML (\<lambda>k. None) ''not-a-color'' (noOptions\<lparr>mode := Some ''block''\<rparr>) \<noteq>
     elementHTML (createColoredHex (\<lambda>k. None) ''not-a-color'' (noOptions\<lparr>mode := Some ''block''\<rparr>))"
  by (simp add: createColoredHex_invalid [OF not_valid_not_a_color]
      createColoredHexHTML_invalid [OF not_valid_not_a_color] elementHTML_def styleText_def)

text \<open>
  Claim C5. \<^verbatim>\<open>hexToRgb\<close> parses six hex digits, with or without a leading
  \<^verbatim>\<open>#\<close> and in either case of the letters, into the three channels that the
  pairs of digits spell, each at most 255; \<^verbatim>\<open>hexToRgb("#FF5733")\<close> is
  \<^verbatim>\<open>{r:255, g:87, b:51}\<close>; every other string (another length, a character that
  is no hex digit, the three-digit shorthand) gives \<^verbatim>\<open>{r:0, g:0, b:0}\<close>. No
  channel is ever \<^verbatim>\<open>NaN\<close>.
\<close>

theorem hexToRgb_parses:
  "(length d = 6 \<and> list_all hexDigit d \<longrightarrow>
      hexToRgb d =
        \<lparr>r = Some (channelAt d 0), g = Some (channelAt d 2), b = Some (channelAt d 4)\<rparr> \<and>
      hexToRgb (CHR ''#'' # d) = hexToRgb d \<and>
      channelAt d 0 \<le> 255 \<and> channelAt d 2 \<le> 255 \<and> channelAt d 4 \<le> 255) \<and>
   (\<not> (\<exists>d. length d = 6 \<and> list_all hexDigit d \<and> (hex = d \<or> hex = CHR ''#'' # d)) \<longrightarrow>
      hexToRgb hex = \<lparr>r = Some 0, g = Some 0, b = Some 0\<rparr>) \<and>
   (\<exists>R G B. hexToRgb hex = \<lparr>r = Some R, g = Some G, b = Some B\<rparr> \<and>
      R \<le> 255 \<and> G \<le> 255 \<and> B \<le> 255) \<and>
   hexToRgb ''#FF5733'' = \<lparr>r = Some 255, g = Some 87, b = Some 51\<rparr> \<and>
   hexToRgb ''#ff5733'' = \<lparr>r = Some 255, g = Some 87, b = Some 51\<rparr>"
proof -
  have six: "length d = 6 \<and> list_all hexDigit d \<longrightarrow>
      hexToRgb d =
        \<lparr>r = Some (channelAt d 0), g = Some (channelAt d 2), b = Some (channelAt d 4)\<rparr> \<and>
      hexToRgb (CHR ''#'' # d) = hexToRgb d \<and>
      channelAt d 0 \<le> 255 \<and> channelAt d 2 \<le> 255 \<and> channelAt d 4 \<le> 255"
    using hexToRgb_six [of d d] hexToRgb_six [of d "CHR ''#'' # d"]
    by (simp add: channelAt_le)
  have other: "\<not> (\<exists>d. length d = 6 \<and> list_all hexDigit d \<and> (hex = d \<or> hex = CHR ''#'' # d)) \<longrightarrow>
      hexToRgb hex = \<lparr>r = Some 0, g = Some 0, b = Some 0\<rparr>"
    using withoutHash_cases [of hex] hexToRgb_other [of hex] by blast
  have upper: "hexToRgb ''#FF5733'' = \<lparr>r = Some 255, g = Some 87, b = Some 51\<rparr>"
    using hexToRgb_six [of "''FF5733''" "''#FF5733''"]
    by (simp add: hexDigit_def channelAt_def digitVal_def)
  have lower: "hexToRgb ''#ff5733'' = \<lparr>r = Some 255, g = Some 87, b = Some 51\<rparr>"
    using hexToRgb_six [of "''ff5733''" "''#ff5733''"]
    by (simp add: hexDigit_def channelAt_def digitVal_def)
  show ?thesis
    using six other hexToRgb_channels [of hex] upper lower by blast
qed

theorem hexToRgb_parses_witness:
  "hexToRgb ''1aB2c3'' = \<lparr>r = Some 26, g = Some 178, b = Some 195\<rparr> \<and>
   hexToRgb ''#1aB2c3'' = \<lparr>r = Some 26, g = Some 178, b = Some 195\<rparr> \<and>
   hexToRgb ''#fff'' = \<lparr>r = Some 0, g = Some 0, b = Some 0\<rparr>"
proof -
  have d: "length ''1aB2c3'' = 6 \<and> list_all hexDigit ''1aB2c3''"
    by (simp add: hexDigit_def)
  have n: "\<not> (\<exists>d. length d = 6 \<and> list_all hexDigit d \<and> (''#fff'' = d \<or> ''#fff'' = CHR ''#'' # d))"
    by auto
  show ?thesis
    using hexToRgb_parses [of "''1aB2c3''" "''#fff''"] d n
    by (simp add: channelAt_def digitVal_def)
qed

text \<open>
  Claim C6. \<^verbatim>\<open>getContrastColor\<close> computes the brightness
  \<open>(R * 299 + G * 587 + B * 114) / 1000\<close> of the parsed channels and returns
  \<^verbatim>\<open>#000000\<close> exactly when it exceeds 128, \<^verbatim>\<open>#ffffff\<close> otherwise; the result
  is always one of the two; white gives \<^verbatim>\<open>#000000\<close> and black gives
  \<^verbatim>\<open>#ffffff\<close>. The test is the same as the integer test
  \<open>R * 299 + G * 587 + B * 114 > 128000\<close>, so it does not depend on how the quotient is
  rounded. (The result is a function of the input, which is all that "deterministic"
  asks.)
\<close>

theorem getContrastColor_brightness:
  "(\<exists>R G B. hexToRgb h = \<lparr>r = Some R, g = Some G, b = Some B\<rparr> \<and>
      getContrastColor h =
        (if real (R * 299 + G * 587 + B * 114) / 1000 > 128 then ''#000000'' else ''#ffffff'') \<and>
      getContrastColor h =
        (if R * 299 + G * 587 + B * 114 > 128000 then ''#000000'' else ''#ffffff'')) \<and>
   (getContrastColor h = ''#000000'' \<or> getContrastColor h = ''#ffffff'') \<and>
   getContrastColor ''#ffffff'' = ''#000000'' \<and>
   getContrastColor ''#000000'' = ''#ffffff''"
proof -
  obtain R G B where c: "hexToRgb h = \<lparr>r = Some R, g = Some G, b = Some B\<rparr>"
    using hexToRgb_channels [of h] by blast
  have f: "getContrastColor h =
      (if real (R * 299 + G * 587 + B * 114) / 1000 > 128 then ''#000000'' else ''#ffffff'')"
    using c by (rule getContrastColor_channels)
  have "real (R * 299 + G * 587 + B * 114) / 1000 > 128 \<longleftrightarrow> R * 299 + G * 587 + B * 114 > 128000"
    by (simp add: field_simps) linarith
  then have i: "getContrastColor h =
      (if R * 299 + G * 587 + B * 114 > 128000 then ''#000000'' else ''#ffffff'')"
    using f by simp
  have "hexToRgb ''#ffffff'' = \<lparr>r = Some 255, g = Some 255, b = Some 255\<rparr>"
    using hexToRgb_six [of "''ffffff''" "''#ffffff''"]
    by (simp add: hexDigit_def channelAt_def digitVal_def)
  then have w: "getContrastColor ''#ffffff'' = ''#000000''"
    by (simp add: getContrastColor_channels)
  have "hexToRgb ''#000000'' = \<lparr>r = Some 0, g = Some 0, b = Some 0\<rparr>"
    using hexToRgb_six [of "''000000''" "''#000000''"]
    by (simp add: hexDigit_def channelAt_def digitVal_def)
  then have k: "getContrastColor ''#000000'' = ''#ffffff''"
    by (simp add: getContrastColor_channels)
  show ?thesis using c f i w k getContrastColor_range [of h] by blast
qed

text \<open>
  Claim C7. \<^verbatim>\<open>getLuminance\<close> divides each parsed channel by 255, linearises it
  (at most 0.03928: divided by 12.92; above: \<open>((v + 0.055) / 1.055)\<close> to the power 2.4)
  and combines the three with the weights 0.2126, 0.7152 and 0.0722. The result lies
  between 0 and 1; it is 1 for \<^verbatim>\<open>#ffffff\<close> and 0 for \<^verbatim>\<open>#000000\<close>. The theorem
  is about the exact real value of the formula the source computes in double precision.
\<close>

theorem getLuminance_range:
  "(\<exists>R G B. hexToRgb h = \<lparr>r = Some R, g = Some G, b = Some B\<rparr> \<and>
      0 \<le> real R / 255 \<and> real R / 255 \<le> 1 \<and>
      0 \<le> real G / 255 \<and> real G / 255 \<le> 1 \<and>
      0 \<le> real B / 255 \<and> real B / 255 \<le> 1 \<and>
      getLuminance h =
        Some (0.2126 * linearize (real R) + 0.7152 * linearize (real G) +
              0.0722 * linearize (real B))) \<and>
   linearize v =
     (if v / 255 \<le> 0.03928 then v / 255 / 12.92 else ((v / 255 + 0.055) / 1.055) powr 2.4) \<and>
   (\<exists>L. getLuminance h = Some L \<and> 0 \<le> L \<and> L \<le> 1) \<and>
   getLuminance ''#ffffff'' = Some 1 \<and>
   getLuminance ''#000000'' = Some 0"
proof -
  obtain R G B where c: "hexToRgb h = \<lparr>r = Some R, g = Some G, b = Some B\<rparr>"
    and le: "R \<le> 255" "G \<le> 255" "B \<le> 255"
    using hexToRgb_channels [of h] by blast
  let ?L = "0.2126 * linearize (real R) + 0.7152 * linearize (real G) + 0.0722 * linearize (real B)"
  have f: "getLuminance h = Some ?L" using c by (rule getLuminance_channels)
  have lo: "0 \<le> ?L"
    using linearize_range [OF le(1)] linearize_range [OF le(2)] linearize_range [OF le(3)]
    by simp
  have hi: "?L \<le> 1"
    using linearize_range [OF le(1)] linearize_range [OF le(2)] linearize_range [OF le(3)]
    by (auto simp add: field_simps)
  have "hexToRgb ''#ffffff'' = \<lparr>r = Some 255, g = Some 255, b = Some 255\<rparr>"
    using hexToRgb_six [of "''ffffff''" "''#ffffff''"]
    by (simp add: hexDigit_def channelAt_def digitVal_def)
  then have w: "getLuminance ''#ffffff'' = Some 1"
    by (simp add: getLuminance_channels linearize_255)
  have "hexToRgb ''#000000'' = \<lparr>r = Some 0, g = Some 0, b = Some 0\<rparr>"
    using hexToRgb_six [of "''000000''" "''#000000''"]
    by (simp add: hexDigit_def channelAt_def digitVal_def)
  then have k: "getLuminance ''#000000'' = Some 0"
    by (simp add: getLuminance_channels linearize_0)
  have d: "linearize v =
     (if v / 255 \<le> 0.03928 then v / 255 / 12.92 else ((v / 255 + 0.055) / 1.055) powr 2.4)"
    by (simp add: linearize_def)
  have n: "0 \<le> real R / 255 \<and> real R / 255 \<le> 1 \<and> 0 \<le> real G / 255 \<and> real G / 255 \<le> 1 \<and>
      0 \<le> real B / 255 \<and> real B / 255 \<le> 1"
    using le by simp
  show ?thesis using c n f lo hi w k d by blast
qed

text \<open>
  Claim C8. For a valid colour and \<^verbatim>\<open>showBorder\<close> true (given, or by default),
  both renderers set a border \<^verbatim>\<open>1px solid rgba(0,0,0,0.2)\<close> when the text colour is
  black and \<^verbatim>\<open>1px solid rgba(255,255,255,0.3)\<close> when it is white. With mode
  \<^verbatim>\<open>block\<close> and \<^verbatim>\<open>showBorder\<close> false the markup is a \<^verbatim>\<open>div\<close> whose style
  attribute is the background and the text colour and nothing else: the word
  \<^verbatim>\<open>border\<close> does not occur in it.
\<close>

theorem border_follows_text_color:
  "isValidHex h \<Longrightarrow>
   (orDefault (showBorder opts) True \<longrightarrow>
      (el_color (createColoredHex proto h opts) = Some ''#000000'' \<and>
       el_border (createColoredHex proto h opts) = Some ''1px solid rgba(0,0,0,0.2)'' \<and>
       (\<exists>pre. createColoredHexHTML proto h opts =
          pre @ ''; color: #000000; border: 1px solid rgba(0,0,0,0.2);\">'' @ h @ ''</'' @
          el_tagName (createColoredHex proto h opts) @ ''>'') \<or>
       el_color (createColoredHex proto h opts) = Some ''#ffffff'' \<and>
       el_border (createColoredHex proto h opts) = Some ''1px solid rgba(255,255,255,0.3)'' \<and>
       (\<exists>pre. createColoredHexHTML proto h opts =
          pre @ ''; color: #ffffff; border: 1px solid rgba(255,255,255,0.3);\">'' @ h @ ''</'' @
          el_tagName (createColoredHex proto h opts) @ ''>''))) \<and>
   (mode opts = Some ''block'' \<and> showBorder opts = Some False \<longrightarrow>
      el_border (createColoredHex proto h opts) = None \<and>
      createColoredHexHTML proto h opts =
        ''<div class=\"'' @ el_className (createColoredHex proto h opts) @ ''\" style=\"'' @
        ''background-color: '' @ h @ ''; color: '' @ getContrastColor h @ ''; '' @
        ''\">'' @ h @ ''</div>'' \<and>
      \<not> sublist ''border''
        (''background-color: '' @ h @ ''; color: '' @ getContrastColor h @ ''; ''))"
proof (intro conjI impI)
  assume v: "isValidHex h" and sb: "orDefault (showBorder opts) True"
  from getContrastColor_range [of h]
  show "el_color (createColoredHex proto h opts) = Some ''#000000'' \<and>
       el_border (createColoredHex proto h opts) = Some ''1px solid rgba(0,0,0,0.2)'' \<and>
       (\<exists>pre. createColoredHexHTML proto h opts =
          pre @ ''; color: #000000; border: 1px solid rgba(0,0,0,0.2);\">'' @ h @ ''</'' @
          el_tagName (createColoredHex proto h opts) @ ''>'') \<or>
       el_color (createColoredHex proto h opts) = Some ''#ffffff'' \<and>
       el_border (createColoredHex proto h opts) = Some ''1px solid rgba(255,255,255,0.3)'' \<and>
       (\<exists>pre. createColoredHexHTML proto h opts =
          pre @ ''; color: #ffffff; border: 1px solid rgba(255,255,255,0.3);\">'' @ h @ ''</'' @
          el_tagName (createColoredHex proto h opts) @ ''>'')"
  proof (elim disjE)
    assume k: "getContrastColor h = ''#000000''"
    have c: "el_color (createColoredHex proto h opts) = Some ''#000000''"
      by (simp add: createColoredHex_valid [OF v] k)
    have bd: "el_border (createColoredHex proto h opts) = Some ''1px solid rgba(0,0,0,0.2)''"
      using sb by (simp add: createColoredHex_valid [OF v] k)
    have eq: "createColoredHexHTML proto h opts =
       (''<'' @ (if orDefault (mode opts) ''inline'' = ''block'' then ''div'' else ''span'') @
        '' class=\"colored-hex font-mono rounded '' @
        sizeClassText proto (orDefault (size' opts) ''md'') @ '' '' @
        orDefault (className opts) [] @ ''\" style=\"background-color: '' @ h) @
       ''; color: #000000; border: 1px solid rgba(0,0,0,0.2);\">'' @ h @ ''</'' @
       el_tagName (createColoredHex proto h opts) @ ''>''"
      using sb by (simp add: createColoredHexHTML_valid [OF v] createColoredHex_valid [OF v] k)
    have ex: "\<exists>pre. createColoredHexHTML proto h opts =
          pre @ ''; color: #000000; border: 1px solid rgba(0,0,0,0.2);\">'' @ h @ ''</'' @
          el_tagName (createColoredHex proto h opts) @ ''>''" by (rule exI, rule eq)
    show ?thesis by (rule disjI1) (intro conjI c bd ex)
  next
    assume w: "getContrastColor h = ''#ffffff''"
    have c: "el_color (createColoredHex proto h opts) = Some ''#ffffff''"
      by (simp add: createColoredHex_valid [OF v] w)
    have bd: "el_border (createColoredHex proto h opts) = Some ''1px solid rgba(255,255,255,0.3)''"
      using sb by (simp add: createColoredHex_valid [OF v] w)
    have eq: "createColoredHexHTML proto h opts =
       (''<'' @ (if orDefault (mode opts) ''inline'' = ''block'' then ''div'' else ''span'') @
        '' class=\"colored-hex font-mono rounded '' @
        sizeClassText proto (orDefault (size' opts) ''md'') @ '' '' @
        orDefault (className opts) [] @ ''\" style=\"background-color: '' @ h) @
       ''; color: #ffffff; border: 1px solid rgba(255,255,255,0.3);\">'' @ h @ ''</'' @
       el_tagName (createColoredHex proto h opts) @ ''>''"
      using sb by (simp add: createColoredHexHTML_valid [OF v] createColoredHex_valid [OF v] w)
    have ex: "\<exists>pre. createColoredHexHTML proto h opts =
          pre @ ''; color: #ffffff; border: 1px solid rgba(255,255,255,0.3);\">'' @ h @ ''</'' @
          el_tagName (createColoredHex proto h opts) @ ''>''" by (rule exI, rule eq)
    show ?thesis by (rule disjI2) (intro conjI c bd ex)
  qed
next
  assume v: "isValidHex h" and o: "mode opts = Some ''block'' \<and> showBorder opts = Some False"
  show "el_border (createColoredHex proto h opts) = None"
    using o by (simp add: createColoredHex_valid [OF v] orDefault_def)
  show "createColoredHexHTML proto h opts =
        ''<div class=\"'' @ el_className (createColoredHex proto h opts) @ ''\" style=\"'' @
        ''background-color: '' @ h @ ''; color: '' @ getContrastColor h @ ''; '' @
        ''\">'' @ h @ ''</div>''"
    using o by (simp add: createColoredHexHTML_valid [OF v] createColoredHex_valid [OF v]
        orDefault_def)
  show "\<not> sublist ''border''
        (''background-color: '' @ h @ ''; color: '' @ getContrastColor h @ ''; '')"
    using v by (rule style_has_no_border)
qed

theorem border_follows_text_color_witness:
  "isValidHex ''#FF5733'' \<and>
   el_color (createColoredHex (\<lambda>k. None) ''#FF5733'' noOptions) = Some ''#000000'' \<and>
   el_border (createColoredHex (\<lambda>k. None) ''#FF5733'' noOptions) =
     Some ''1px solid rgba(0,0,0,0.2)'' \<and>
   isValidHex ''#1a2b3c'' \<and>
   createColoredHexHTML (\<lambda>k. None) ''#1a2b3c''
       \<lparr>mode = Some ''block'', size' = None, showBorder = Some False, className = None\<rparr> =
     ''<div class=\"colored-hex font-mono rounded text-xs px-2 py-1 \" style=\"background-color: #1a2b3c; color: #ffffff; \">#1a2b3c</div>''"
proof -
  have a: "el_color (createColoredHex (\<lambda>k. None) ''#FF5733'' noOptions) = Some ''#000000'' \<and>
      el_border (createColoredHex (\<lambda>k. None) ''#FF5733'' noOptions) =
        Some ''1px solid rgba(0,0,0,0.2)''"
    using border_follows_text_color [OF isValidHex_FF5733, of noOptions "\<lambda>k. None"]
    by (simp add: noOptions_def orDefault_def createColoredHex_valid [OF isValidHex_FF5733]
        getContrastColor_FF5733)
  have c: "el_className (createColoredHex (\<lambda>k. None) ''#1a2b3c''
       \<lparr>mode = Some ''block'', size' = None, showBorder = Some False, className = None\<rparr>) =
     ''colored-hex font-mono rounded text-xs px-2 py-1 ''"
    by (simp add: createColoredHex_valid [OF isValidHex_1a2b3c] orDefault_def sizeClassText_def
        sizeClasses_def)
  have b: "createColoredHexHTML (\<lambda>k. None) ''#1a2b3c''
       \<lparr>mode = Some ''block'', size' = None, showBorder = Some False, className = None\<rparr> =
     ''<div class=\"colored-hex font-mono rounded text-xs px-2 py-1 \" style=\"background-color: #1a2b3c; color: #ffffff; \">#1a2b3c</div>''"
    using border_follows_text_color [OF isValidHex_1a2b3c,
        of "\<lparr>mode = Some ''block'', size' = None, showBorder = Some False, className = None\<rparr>"
           "\<lambda>k. None"]
    by (simp add: c getContrastColor_1a2b3c)
  show ?thesis using a b isValidHex_FF5733 isValidHex_1a2b3c by simp
qed

text \<open>
  Claim C9, as amended. On every string, \<^verbatim>\<open>hexToRgb\<close> returns three numbers,
  \<^verbatim>\<open>getLuminance\<close> a number and \<^verbatim>\<open>getContrastColor\<close> one of its two tokens
  (and \<^verbatim>\<open>isValidHex\<close> a truth value), and the two renderers return whenever the
  options argument is omitted, \<^verbatim>\<open>undefined\<close> or an object: they throw in one case
  only, a \<^verbatim>\<open>TypeError\<close> for an input that \<^verbatim>\<open>isValidHex\<close> accepts together
  with the options \<^verbatim>\<open>null\<close>. When \<^verbatim>\<open>isValidHex\<close> rejects the input, whatever
  the options argument, \<^verbatim>\<open>createColoredHex\<close> returns a \<^verbatim>\<open>span\<close> with no class
  and no style whose text content is the input, and \<^verbatim>\<open>createColoredHexHTML\<close>
  returns the input itself, unchanged and unescaped.
\<close>

theorem renderers_throw_only_on_null_options:
  "(\<exists>R G B. hexToRgb h = \<lparr>r = Some R, g = Some G, b = Some B\<rparr>) \<and>
   (\<exists>L. getLuminance h = Some L) \<and>
   (getContrastColor h = ''#000000'' \<or> getContrastColor h = ''#ffffff'') \<and>
   callCreateColoredHex proto h Undefined = Inr (createColoredHex proto h noOptions) \<and>
   callCreateColoredHex proto h (Object opts) = Inr (createColoredHex proto h opts) \<and>
   callCreateColoredHexHTML proto h Undefined = Inr (createColoredHexHTML proto h noOptions) \<and>
   callCreateColoredHexHTML proto h (Object opts) = Inr (createColoredHexHTML proto h opts) \<and>
   (callCreateColoredHex proto h arg = Inl TypeError \<longleftrightarrow> isValidHex h \<and> arg = Null) \<and>
   (callCreateColoredHexHTML proto h arg = Inl TypeError \<longleftrightarrow> isValidHex h \<and> arg = Null) \<and>
   (\<not> isValidHex h \<longrightarrow>
      callCreateColoredHex proto h arg =
        Inr \<lparr>el_tagName = ''span'', el_className = [], el_backgroundColor = None,
             el_color = None, el_border = None, el_textContent = h\<rparr> \<and>
      callCreateColoredHexHTML proto h arg = Inr h)"
proof -
  obtain R G B where c: "hexToRgb h = \<lparr>r = Some R, g = Some G, b = Some B\<rparr>"
    using hexToRgb_channels [of h] by blast
  then have rgb: "\<exists>R G B. hexToRgb h = \<lparr>r = Some R, g = Some G, b = Some B\<rparr>"
    by blast
  have lum: "\<exists>L. getLuminance h = Some L"
    using getLuminance_channels [OF c] by simp
  have dom_u: "callCreateColoredHex proto h Undefined = Inr (createColoredHex proto h noOptions)"
    by (simp add: callCreateColoredHex_def createColoredHex_def)
  have dom_o: "callCreateColoredHex proto h (Object opts) = Inr (createColoredHex proto h opts)"
    by (simp add: callCreateColoredHex_def createColoredHex_def)
  have html_u:
    "callCreateColoredHexHTML proto h Undefined = Inr (createColoredHexHTML proto h noOptions)"
    by (simp add: callCreateColoredHexHTML_def createColoredHexHTML_def)
  have html_o:
    "callCreateColoredHexHTML proto h (Object opts) = Inr (createColoredHexHTML proto h opts)"
    by (simp add: callCreateColoredHexHTML_def createColoredHexHTML_def)
  have dom_t: "callCreateColoredHex proto h arg = Inl TypeError \<longleftrightarrow> isValidHex h \<and> arg = Null"
    by (cases arg) (simp_all add: callCreateColoredHex_def)
  have html_t:
    "callCreateColoredHexHTML proto h arg = Inl TypeError \<longleftrightarrow> isValidHex h \<and> arg = Null"
    by (cases arg) (simp_all add: callCreateColoredHexHTML_def)
  have fallback: "\<not> isValidHex h \<longrightarrow>
      callCreateColoredHex proto h arg =
        Inr \<lparr>el_tagName = ''span'', el_className = [], el_backgroundColor = None,
             el_color = None, el_border = None, el_textContent = h\<rparr> \<and>
      callCreateColoredHexHTML proto h arg = Inr h"
    by (simp add: callCreateColoredHex_def callCreateColoredHexHTML_def createElement_def)
  show ?thesis
    by (intro conjI rgb lum getContrastColor_range dom_u dom_o html_u html_o dom_t html_t fallback)
qed

theorem renderers_throw_only_on_null_options_witness:
  "\<not> isValidHex ''<b>not-a-color</b>'' \<and>
   callCreateColoredHex (\<lambda>k. None) ''<b>not-a-color</b>'' Null =
     Inr \<lparr>el_tagName = ''span'', el_className = [], el_backgroundColor = None,
          el_color = None, el_border = None, el_textContent = ''<b>not-a-color</b>''\<rparr> \<and>
   callCreateColoredHexHTML (\<lambda>k. None) ''<b>not-a-color</b>'' Null =
     Inr ''<b>not-a-color</b>'' \<and>
   callCreateColoredHex (\<lambda>k. None) ''#FF5733'' Undefined =
     Inr (createColoredHex (\<lambda>k. None) ''#FF5733'' noOptions)"
proof -
  have n: "\<not> isValidHex ''<b>not-a-color</b>''"
    by (simp add: isValidHex_iff)
  show ?thesis
    using n
      renderers_throw_only_on_null_options [of "''<b>not-a-color</b>''" "\<lambda>k. None" noOptions Null]
      renderers_throw_only_on_null_options [of "''#FF5733''" "\<lambda>k. None" noOptions Null]
    by simp
qed

text \<open>
  Claim C9, as stated, says that no function ever throws on a string input. For the valid
  colour \<^verbatim>\<open>#FF5733\<close> and the options \<^verbatim>\<open>null\<close> both renderers throw a
  \<^verbatim>\<open>TypeError\<close>.
\<close>

theorem renderers_throw_on_null_options:
  "callCreateColoredHex (\<lambda>k. None) ''#FF5733'' Null = Inl TypeError \<and>
   callCreateColoredHexHTML (\<lambda>k. None) ''#FF5733'' Null = Inl TypeError"
  by (simp add: callCreateColoredHex_def callCreateColoredHexHTML_def isValidHex_FF5733)



end
